theory Spec2Isabelle
  imports Complex_Main "HOL-Library.Log_Nat" "HOL-Library.Multiset"
begin

section \<open>Values\<close>

text \<open>
  The engine of \<^verbatim>\<open>SD23039_Lab3.py\<close> works on Python objects that come from number
  widgets and from \<^verbatim>\<open>json.loads\<close>: facts are a \<^verbatim>\<open>Dict[str, Any]\<close>, a condition is a
  \<^verbatim>\<open>List[Any]\<close>. The values of \<^verbatim>\<open>Any\<close> are therefore the JSON values.

  A Python float is an IEEE double. The program only compares floats, so a float is
  modelled by what a comparison can see: the exact rational value of a finite double
  (\<open>-0.0\<close> and \<open>0.0\<close> compare equal and are one value here), the two infinities, and NaN.
  A string is a sequence of code points below 256.
\<close>

datatype pyfloat = Fin rat | PInf | NInf | NaN

datatype json =
    JNull
  | JBool bool
  | JInt int
  | JFloat pyfloat
  | JStr string
  | JArr "json list"
  | JObj "(string \<times> json) list"

datatype pyerr = TypeError | ValueError | OverflowError | IndexError

subsection \<open>Rounding to a double\<close>

text \<open>
  \<open>dbl q\<close> is the double nearest to the rational \<open>q\<close>, ties going to the even
  mantissa: the rounding of a float literal, of \<^verbatim>\<open>float(int)\<close> and of \<^verbatim>\<open>float(str)\<close>.
  Doubles have 53 bits of mantissa, the least normal exponent is \<open>-1022\<close>, and a
  rounded value of \<open>2 ^ 1024\<close> or more is an overflow.
\<close>

definition pow2 :: "int \<Rightarrow> rat" where
  "pow2 e = (if 0 \<le> e then 2 ^ nat e else 1 / 2 ^ nat (- e))"

definition ilog2 :: "rat \<Rightarrow> int" where
  \<comment> \<open>\<open>\<lfloor>log\<^sub>2 a\<rfloor>\<close> for \<open>0 < a\<close>; \<open>bitlen\<close> is the number of binary digits\<close>
  "ilog2 a =
     (if 1 \<le> a then bitlen \<lfloor>a\<rfloor> - 1
      else - bitlen (\<lceil>1 / a\<rceil> - 1))"

definition round_half_even :: "rat \<Rightarrow> int" where
  "round_half_even x =
     (let f = \<lfloor>x\<rfloor>; d = x - of_int f
      in if d < 1 / 2 then f
         else if 1 / 2 < d then f + 1
         else if even f then f else f + 1)"

definition dbl :: "rat \<Rightarrow> pyfloat" where
  "dbl q =
     (if q = 0 then Fin 0
      else
        let a = \<bar>q\<bar>;
            e = max (ilog2 a) (- 1022);
            u = pow2 (e - 52);
            v = of_int (round_half_even (a / u)) * u
        in if pow2 1024 \<le> v then (if 0 < q then PInf else NInf)
           else Fin (if 0 < q then v else - v))"

subsection \<open>The built-in \<^verbatim>\<open>float()\<close>\<close>

text \<open>
  \<^verbatim>\<open>float(str)\<close> accepts, between optional white space, an optional sign followed by
  \<^verbatim>\<open>inf\<close>, \<^verbatim>\<open>infinity\<close> or \<^verbatim>\<open>nan\<close> in any letter case, or by a decimal number with an
  optional exponent. One underscore may stand between two digits. Anything else is a
  \<^verbatim>\<open>ValueError\<close>, here \<open>None\<close>.
\<close>

definition is_space :: "char \<Rightarrow> bool" where
  "is_space c =
     (let n = (of_char c :: nat)
      in (9 \<le> n \<and> n \<le> 13) \<or> n = 32 \<or> n = 133 \<or> n = 160)"

definition is_digit :: "char \<Rightarrow> bool" where
  "is_digit c = (let n = (of_char c :: nat) in 48 \<le> n \<and> n \<le> 57)"

definition digit_val :: "char \<Rightarrow> nat" where
  "digit_val c = of_char c - 48"

definition lower :: "char \<Rightarrow> char" where
  "lower c =
     (let n = (of_char c :: nat) in if 65 \<le> n \<and> n \<le> 90 then char_of (n + 32) else c)"

definition strip :: "string \<Rightarrow> string" where
  "strip s = rev (dropWhile is_space (rev (dropWhile is_space s)))"

text \<open>
  \<open>digitpart s\<close> reads the longest prefix \<open>digit ([_] digit)*\<close> of \<open>s\<close> and returns
  its digits and the rest; the digit list is empty when \<open>s\<close> does not start with a
  digit. An underscore that no digit follows is left in the rest, where it is an error.
\<close>

fun digitpart :: "string \<Rightarrow> char list \<times> string" where
  "digitpart [] = ([], [])"
| "digitpart [c] = (if is_digit c then ([c], []) else ([], [c]))"
| "digitpart (c # d # s) =
     (if \<not> is_digit c then ([], c # d # s)
      else if is_digit d then (let (ds, r) = digitpart (d # s) in (c # ds, r))
      else if d = CHR ''_'' \<and> s \<noteq> [] \<and> is_digit (hd s)
        then (let (ds, r) = digitpart s in (c # ds, r))
      else ([c], d # s))"

definition digits_val :: "char list \<Rightarrow> nat" where
  "digits_val ds = foldl (\<lambda>n c. 10 * n + digit_val c) 0 ds"

definition split_sign :: "string \<Rightarrow> bool \<times> string" where
  \<comment> \<open>an optional sign: whether it is a minus, and the rest\<close>
  "split_sign s =
     (case s of
        c # r \<Rightarrow> if c = CHR ''-'' then (True, r) else if c = CHR ''+'' then (False, r)
                 else (False, s)
      | [] \<Rightarrow> (False, s))"

definition exponent :: "string \<Rightarrow> int option" where
  \<comment> \<open>what follows the mantissa: nothing, or \<open>e\<close>, an optional sign and a digit part\<close>
  "exponent s =
     (case s of
        [] \<Rightarrow> Some 0
      | c # r \<Rightarrow>
          if lower c = CHR ''e'' then
            (let (neg, r') = split_sign r; (ds, rest) = digitpart r'
             in if ds \<noteq> [] \<and> rest = []
                then Some (if neg then - int (digits_val ds) else int (digits_val ds))
                else None)
          else None)"

definition floatnumber :: "string \<Rightarrow> rat option" where
  \<comment> \<open>\<open>[digitpart] . digitpart | digitpart [.]\<close>, then the exponent; the exact value\<close>
  "floatnumber s =
     (let (ip, r) = digitpart s;
          (fp, r') = (case r of
                        c # t \<Rightarrow> if c = CHR ''.'' then digitpart t else ([], r)
                      | [] \<Rightarrow> ([], r))
      in if ip = [] \<and> fp = [] then None
         else
           (case exponent r' of
              None \<Rightarrow> None
            | Some ex \<Rightarrow>
                Some (of_nat (digits_val (ip @ fp))
                      * (if 0 \<le> ex then 10 ^ nat ex else 1 / 10 ^ nat (- ex))
                      / 10 ^ length fp)))"

definition float_of_str :: "string \<Rightarrow> pyfloat option" where
  "float_of_str s =
     (let (neg, body) = split_sign (strip s); w = map lower body
      in if w = ''inf'' \<or> w = ''infinity'' then Some (if neg then NInf else PInf)
         else if w = ''nan'' then Some NaN
         else (case floatnumber body of
                 None \<Rightarrow> None
               | Some q \<Rightarrow> Some (dbl (if neg then - q else q))))"

text \<open>
  \<^verbatim>\<open>float(x)\<close>: a float is itself, a bool is 1.0 or 0.0, an int is rounded and is an
  \<^verbatim>\<open>OverflowError\<close> when it is too large for a double, a string is parsed, and
  \<^verbatim>\<open>None\<close>, a list and a dict are a \<^verbatim>\<open>TypeError\<close>.
\<close>

fun py_float :: "json \<Rightarrow> pyerr + pyfloat" where
  "py_float JNull = Inl TypeError"
| "py_float (JBool b) = Inr (Fin (if b then 1 else 0))"
| "py_float (JInt n) =
     (case dbl (of_int n) of
        PInf \<Rightarrow> Inl OverflowError
      | NInf \<Rightarrow> Inl OverflowError
      | f \<Rightarrow> Inr f)"
| "py_float (JFloat f) = Inr f"
| "py_float (JStr s) = (case float_of_str s of None \<Rightarrow> Inl ValueError | Some f \<Rightarrow> Inr f)"
| "py_float (JArr xs) = Inl TypeError"
| "py_float (JObj kvs) = Inl TypeError"

subsection \<open>Comparing floats\<close>

text \<open>NaN is unordered: every comparison with it is false, except \<open>!=\<close>.\<close>

fun fl_lt :: "pyfloat \<Rightarrow> pyfloat \<Rightarrow> bool" where
  "fl_lt NaN y = False"
| "fl_lt x NaN = False"
| "fl_lt (Fin a) (Fin b) = (a < b)"
| "fl_lt (Fin a) PInf = True"
| "fl_lt (Fin a) NInf = False"
| "fl_lt PInf y = False"
| "fl_lt NInf (Fin b) = True"
| "fl_lt NInf PInf = True"
| "fl_lt NInf NInf = False"

definition fl_eq :: "pyfloat \<Rightarrow> pyfloat \<Rightarrow> bool" where
  "fl_eq x y = (x \<noteq> NaN \<and> x = y)"

section \<open>The rule engine\<close>

text \<open>The operator table \<^verbatim>\<open>OPS\<close>, applied to two floats.\<close>

definition OPS :: "string \<rightharpoonup> (pyfloat \<Rightarrow> pyfloat \<Rightarrow> bool)" where
  "OPS = map_of
     [(''=='', fl_eq),
      (''!='', \<lambda>x y. \<not> fl_eq x y),
      (''>'', \<lambda>x y. fl_lt y x),
      (''>='', \<lambda>x y. fl_lt y x \<or> fl_eq x y),
      (''<'', fl_lt),
      (''<='', \<lambda>x y. fl_lt x y \<or> fl_eq x y)]"

text \<open>
  Looking a key up in a dict with string keys hashes the key first: a list or a dict is
  unhashable and raises \<^verbatim>\<open>TypeError\<close>; a key that is not a string is in no such dict.
  \<open>dict_get\<close> is the membership test \<^verbatim>\<open>k in d\<close> together with the read \<^verbatim>\<open>d[k]\<close>.
\<close>

definition dict_get :: "(string \<rightharpoonup> 'v) \<Rightarrow> json \<Rightarrow> pyerr + 'v option" where
  "dict_get d k =
     (case k of
        JArr xs \<Rightarrow> Inl TypeError
      | JObj kvs \<Rightarrow> Inl TypeError
      | JStr s \<Rightarrow> Inr (d s)
      | _ \<Rightarrow> Inr None)"

text \<open>The values that can be hashed: all but lists and dicts.\<close>

definition hashable :: "json \<Rightarrow> bool" where
  "hashable v = (case v of JArr xs \<Rightarrow> False | JObj kvs \<Rightarrow> False | _ \<Rightarrow> True)"

text \<open>
  \<^verbatim>\<open>evaluate_condition\<close>: the length check, the two membership tests (the operator is
  looked up only when the field is in the facts), and the comparison under
  \<^verbatim>\<open>try ... except Exception\<close>, where a failing \<^verbatim>\<open>float()\<close> gives \<^verbatim>\<open>False\<close>.
\<close>

definition evaluate_condition :: "(string \<rightharpoonup> json) \<Rightarrow> json list \<Rightarrow> pyerr + bool" where
  "evaluate_condition facts cond =
     (case cond of
        [field, op, val] \<Rightarrow>
          (case dict_get facts field of
             Inl e \<Rightarrow> Inl e
           | Inr None \<Rightarrow> Inr False
           | Inr (Some fv) \<Rightarrow>
               (case dict_get OPS op of
                  Inl e \<Rightarrow> Inl e
                | Inr None \<Rightarrow> Inr False
                | Inr (Some f) \<Rightarrow>
                    (case py_float fv of
                       Inl e \<Rightarrow> Inr False
                     | Inr x \<Rightarrow>
                         (case py_float val of
                            Inl e \<Rightarrow> Inr False
                          | Inr y \<Rightarrow> Inr (f x y)))))
      | _ \<Rightarrow> Inr False)"

text \<open>
  A rule is a dict read with \<^verbatim>\<open>.get\<close>: each field may be absent. The priority is an
  integer, a condition is a list of any values, the action is any value.
\<close>

record rule =
  name :: "string option"
  priority :: "int option"
  conditions :: "json list list option"
  action :: "json option"

text \<open>\<^verbatim>\<open>all(evaluate_condition(facts, c) for c in cs)\<close> stops at the first false condition.\<close>

fun all_conditions :: "(string \<rightharpoonup> json) \<Rightarrow> json list list \<Rightarrow> pyerr + bool" where
  "all_conditions facts [] = Inr True"
| "all_conditions facts (c # cs) =
     (case evaluate_condition facts c of
        Inl e \<Rightarrow> Inl e
      | Inr b \<Rightarrow> if b then all_conditions facts cs else Inr False)"

definition rule_matches :: "(string \<rightharpoonup> json) \<Rightarrow> rule \<Rightarrow> pyerr + bool" where
  "rule_matches facts r =
     all_conditions facts (case conditions r of None \<Rightarrow> [] | Some cs \<Rightarrow> cs)"

text \<open>The comprehension \<^verbatim>\<open>[r for r in rules if rule_matches(facts, r)]\<close>, in input order.\<close>

fun fired_rules :: "(string \<rightharpoonup> json) \<Rightarrow> rule list \<Rightarrow> pyerr + rule list" where
  "fired_rules facts [] = Inr []"
| "fired_rules facts (r # rs) =
     (case rule_matches facts r of
        Inl e \<Rightarrow> Inl e
      | Inr b \<Rightarrow>
          (case fired_rules facts rs of
             Inl e \<Rightarrow> Inl e
           | Inr fs \<Rightarrow> Inr (if b then r # fs else fs)))"

definition priority_key :: "rule \<Rightarrow> int" where
  \<comment> \<open>\<^verbatim>\<open>r.get("priority", 0)\<close>\<close>
  "priority_key r = (case priority r of None \<Rightarrow> 0 | Some p \<Rightarrow> p)"

text \<open>
  \<^verbatim>\<open>sorted(xs, key=k, reverse=True)\<close> is a stable sort: the list is reversed, sorted
  upwards by a stable sort, and reversed again.
\<close>

definition sorted_reverse :: "('a \<Rightarrow> int) \<Rightarrow> 'a list \<Rightarrow> 'a list" where
  "sorted_reverse k xs = rev (sort_key k (rev xs))"

definition no_match_action :: json where
  "no_match_action =
     JObj [(''decision'', JStr ''REJECT''),
           (''reason'', JStr ''No rule criteria matched for an award or review'')]"

definition no_action_default :: json where
  "no_action_default =
     JObj [(''decision'', JStr ''REVIEW''),
           (''reason'', JStr ''Matched rule has no defined action'')]"

definition best_action :: "rule \<Rightarrow> json" where
  \<comment> \<open>\<^verbatim>\<open>r.get("action", {...})\<close>\<close>
  "best_action r = (case action r of None \<Rightarrow> no_action_default | Some a \<Rightarrow> a)"

definition run_rules :: "(string \<rightharpoonup> json) \<Rightarrow> rule list \<Rightarrow> pyerr + json \<times> rule list" where
  "run_rules facts rules =
     (case fired_rules facts rules of
        Inl e \<Rightarrow> Inl e
      | Inr fired \<Rightarrow>
          if fired = [] then Inr (no_match_action, [])
          else
            (let fired_sorted = sorted_reverse priority_key fired
             in case fired_sorted of
                  [] \<Rightarrow> Inl IndexError
                | r # rest \<Rightarrow> Inr (best_action r, fired_sorted)))"

subsection \<open>The knowledge base\<close>

definition cond3 :: "string \<Rightarrow> string \<Rightarrow> json \<Rightarrow> json list" where
  "cond3 field op val = [JStr field, JStr op, val]"

definition mk_rule :: "string \<Rightarrow> int \<Rightarrow> json list list \<Rightarrow> string \<Rightarrow> string \<Rightarrow> rule" where
  "mk_rule n p cs d why =
     \<lparr>name = Some n, priority = Some p, conditions = Some cs,
      action = Some (JObj [(''decision'', JStr d), (''reason'', JStr why)])\<rparr>"

definition top_merit :: rule where
  "top_merit = mk_rule ''Top merit candidate'' 100
     [cond3 ''cgpa'' ''>='' (JFloat (dbl (37 / 10))),
      cond3 ''co_curricular score'' ''>='' (JInt 80),
      cond3 ''family_income'' ''<='' (JInt 8000),
      cond3 ''disciplinary_actions'' ''=='' (JInt 0)]
     ''AWARD FULL''
     ''Excellent academic & co-curricular performance, with acceptable need''"

definition low_cgpa :: rule where
  "low_cgpa = mk_rule ''Low CGPA not eligible'' 95
     [cond3 ''cgpa'' ''<'' (JFloat (dbl (25 / 10)))]
     ''REJECT''
     ''CGPA below minimum scholarship requirement''"

definition serious_disciplinary :: rule where
  "serious_disciplinary = mk_rule ''Serious disciplinary record'' 90
     [cond3 ''disciplinary_actions'' ''>='' (JInt 2)]
     ''REJECT''
     ''Too many disciplinary records''"

definition good_partial :: rule where
  "good_partial = mk_rule ''Good candidate partial scholarship'' 80
     [cond3 ''cgpa'' ''>='' (JFloat (dbl (33 / 10))),
      cond3 ''co_curricular score'' ''>='' (JInt 60),
      cond3 ''family_income'' ''<='' (JInt 12000),
      cond3 ''disciplinary_actions'' ''<='' (JInt 1)]
     ''AWARD PARTIAL''
     ''Good academic & involvement record with moderate need''"

definition need_based :: rule where
  "need_based = mk_rule ''Need-based review'' 70
     [cond3 ''cgpa'' ''>='' (JFloat (dbl (25 / 10))),
      cond3 ''family_income'' ''<='' (JInt 4000)]
     ''REVIEW''
     ''High need but borderline academic score''"

definition SCHOLARSHIP_RULES :: "rule list" where
  "SCHOLARSHIP_RULES = [top_merit, low_cgpa, serious_disciplinary, good_partial, need_based]"

text \<open>The facts dict the form builds: a float CGPA and three ints.\<close>

definition mk_facts :: "rat \<Rightarrow> int \<Rightarrow> int \<Rightarrow> int \<Rightarrow> (string \<rightharpoonup> json)" where
  "mk_facts cgpa income score disc =
     map_of [(''cgpa'', JFloat (dbl cgpa)),
             (''family_income'', JInt income),
             (''co_curricular score'', JInt score),
             (''disciplinary_actions'', JInt disc)]"

text \<open>A rule set with a priority tie, a rule of higher priority and rules with no action.\<close>

definition tie_rules :: "rule list" where
  "tie_rules =
     [\<lparr>name = Some ''first'', priority = Some 5, conditions = Some [], action = None\<rparr>,
      \<lparr>name = Some ''high'', priority = Some 7, conditions = None,
         action = Some (JObj [(''decision'', JStr ''REVIEW''), (''reason'', JStr ''high'')])\<rparr>,
      \<lparr>name = Some ''second'', priority = Some 5, conditions = Some [], action = None\<rparr>]"

section \<open>Properties\<close>

subsection \<open>Small integers are doubles\<close>

lemma round_half_even_of_int: "round_half_even (of_int m) = m"
  by (simp add: round_half_even_def)

lemma pow2_neg: "pow2 (- int j) = 1 / 2 ^ j"
  by (cases "j = 0") (simp_all add: pow2_def)

lemma dbl_of_nat:
  assumes "n < 2 ^ 53"
  shows "dbl (of_nat n) = Fin (of_nat n)"
proof (cases "n = 0")
  case True
  then show ?thesis by (simp add: dbl_def)
next
  case False
  then have pos: "0 < n" by simp
  define k where "k = floorlog 2 n - 1"
  have "floorlog 2 n \<noteq> 0" using pos by (simp add: floorlog_eq_zero_iff)
  then have fk: "floorlog 2 n = Suc k" by (simp add: k_def)
  have "floorlog 2 n \<le> 53" using assms by (intro floorlog_leI) simp_all
  then have k52: "k \<le> 52" using fk by simp
  have il: "ilog2 (of_nat n) = int k"
    using pos fk by (simp add: ilog2_def bitlen_def)
  have ek: "int k - 52 = - int (52 - k)" using k52 by simp
  have u: "pow2 (int k - 52) = 1 / 2 ^ (52 - k)"
    unfolding ek by (rule pow2_neg)
  have q: "(of_nat n :: rat) / (1 / 2 ^ (52 - k)) = of_int (int n * 2 ^ (52 - k))"
    by simp
  have r: "round_half_even (of_nat n / pow2 (int k - 52)) = int n * 2 ^ (52 - k)"
    unfolding u q by (rule round_half_even_of_int)
  have v: "of_int (int n * 2 ^ (52 - k)) * pow2 (int k - 52) = (of_nat n :: rat)"
    unfolding u by simp
  have "(of_nat n :: rat) < of_nat (2 ^ 53)" using assms by (simp only: of_nat_less_iff)
  also have "\<dots> \<le> 2 ^ 1024" by simp
  finally have lt: "(of_nat n :: rat) < 2 ^ 1024" .
  have p1024: "pow2 1024 = 2 ^ 1024" by (simp add: pow2_def)
  have nle: "\<not> pow2 1024 \<le> (of_nat n :: rat)" using lt by (simp only: p1024 not_le)
  have m: "max (int k) (- 1022) = int k" by simp
  have a: "\<bar>of_nat n :: rat\<bar> = of_nat n" by simp
  have nz: "(of_nat n :: rat) \<noteq> 0" "0 < (of_nat n :: rat)" using pos by simp_all
  show ?thesis
    by (simp only: dbl_def Let_def a il m r v nz nle if_False if_True)
qed

lemma dbl_numeral: "numeral w < (2 ^ 53 :: nat) \<Longrightarrow> dbl (numeral w) = Fin (numeral w)"
  using dbl_of_nat[of "numeral w"] by simp
lemma dbl_0: "dbl 0 = Fin 0" by (simp add: dbl_def)
lemma dbl_1: "dbl 1 = Fin 1" using dbl_of_nat[of 1] by simp

subsection \<open>The float literals of the knowledge base\<close>

lemma floor_rat_numeral: "\<lfloor>numeral a / numeral b :: rat\<rfloor> = numeral a div numeral b"
  by (metis floor_divide_of_int_eq of_int_numeral)

lemma dbl_normal:
  assumes lo: "2 ^ k \<le> nat \<lfloor>q\<rfloor>" and hi: "nat \<lfloor>q\<rfloor> < 2 ^ Suc k" and k52: "k \<le> 52"
    and r: "round_half_even (q * 2 ^ (52 - k)) = m" and m0: "0 \<le> m" and m: "m < 2 ^ 53"
  shows "dbl q = Fin (of_int m / 2 ^ (52 - k))"
proof -
  have "0 < nat \<lfloor>q\<rfloor>" using lo by (metis less_le_trans zero_less_numeral zero_less_power)
  then have q1: "1 \<le> q" by (simp add: le_floor_iff)
  have fk: "floorlog 2 (nat \<lfloor>q\<rfloor>) = Suc k"
    using floorlog_leI[of "nat \<lfloor>q\<rfloor>" 2 "Suc k"] floorlog_ge_SucI[of 2 k "nat \<lfloor>q\<rfloor>"] lo hi by simp
  have il: "ilog2 q = int k" using q1 fk by (simp add: ilog2_def bitlen_def)
  have ek: "int k - 52 = - int (52 - k)" using k52 by simp
  have u: "pow2 (int k - 52) = 1 / 2 ^ (52 - k)" unfolding ek by (rule pow2_neg)
  have d: "q / (1 / 2 ^ (52 - k)) = q * 2 ^ (52 - k)" by simp
  have r': "round_half_even (q / pow2 (int k - 52)) = m" unfolding u d by (rule r)
  have v: "of_int m * pow2 (int k - 52) = (of_int m / 2 ^ (52 - k) :: rat)" unfolding u by simp
  have le: "(of_int m :: rat) \<le> of_int m * 2 ^ (52 - k)"
    using mult_left_mono[of 1 "2 ^ (52 - k)" "of_int m :: rat"] m0 by simp
  have "(of_int m / 2 ^ (52 - k) :: rat) \<le> of_int m"
    using le by (subst pos_divide_le_eq) simp_all
  also have "(of_int m :: rat) < of_int (2 ^ 53)" using m by (simp only: of_int_less_iff)
  also have "(of_int (2 ^ 53) :: rat) \<le> 2 ^ 1024" by simp
  finally have lt: "(of_int m / 2 ^ (52 - k) :: rat) < 2 ^ 1024" .
  have p1024: "pow2 1024 = 2 ^ 1024" by (simp add: pow2_def)
  have nle: "\<not> pow2 1024 \<le> (of_int m / 2 ^ (52 - k) :: rat)" using lt by (simp only: p1024 not_le)
  have mx: "max (int k) (- 1022) = int k" by simp
  have a: "\<bar>q\<bar> = q" using q1 by simp
  have nz: "q \<noteq> 0" "0 < q" using q1 by simp_all
  show ?thesis
    by (simp only: dbl_def Let_def a il mx r' v nz nle if_False if_True)
qed
lemma d37: "dbl (37/10) = Fin (4165829655317709 / 1125899906842624)"
  using dbl_normal[of 1 "37/10" 8331659310635418]
  by (simp add: round_half_even_def Let_def floor_rat_numeral)
lemma d38: "dbl (19/5) = Fin (4278419646001971 / 1125899906842624)"
  using dbl_normal[of 1 "19/5" 8556839292003942]
  by (simp add: round_half_even_def Let_def floor_rat_numeral)
lemma d33: "dbl (33/10) = Fin (3715469692580659 / 1125899906842624)"
  using dbl_normal[of 1 "33/10" 7430939385161318]
  by (simp add: round_half_even_def Let_def floor_rat_numeral)
lemma d25: "dbl (5/2) = Fin (5 / 2)"
  using dbl_normal[of 1 "5/2" 5629499534213120]
  by (simp add: round_half_even_def Let_def floor_rat_numeral)
lemma d35: "dbl (7/2) = Fin (7 / 2)"
  using dbl_normal[of 1 "7/2" 7881299347898368]
  by (simp add: round_half_even_def Let_def floor_rat_numeral)

subsection \<open>Matching\<close>

lemma all_conditions_True_iff:
  "all_conditions facts cs = Inr True \<longleftrightarrow> (\<forall>c \<in> set cs. evaluate_condition facts c = Inr True)"
  by (induction cs) (auto split: sum.splits)

text \<open>
  C9. A rule record with no \<open>conditions\<close> field is read as having the empty condition
  list: it matches every fact set.
\<close>

theorem rule_without_conditions_matches:
  "rule_matches facts (r\<lparr>conditions := None\<rparr>) = Inr True"
  by (simp add: rule_matches_def)

subsection \<open>Resolution\<close>

lemmas dbl_eval = dbl_numeral dbl_0 dbl_1 d37 d38 d33 d25 d35

lemmas engine_eval = run_rules_def SCHOLARSHIP_RULES_def rule_matches_def top_merit_def low_cgpa_def
  serious_disciplinary_def good_partial_def need_based_def mk_rule_def cond3_def mk_facts_def
  evaluate_condition_def dict_get_def OPS_def fl_eq_def dbl_eval sorted_reverse_def
  priority_key_def best_action_def

lemma fired_rules_filter:
  "\<forall>r \<in> set rules. \<exists>b. rule_matches facts r = Inr b \<Longrightarrow>
   fired_rules facts rules = Inr (filter (\<lambda>r. rule_matches facts r = Inr True) rules)"
  by (induction rules) auto

lemma fired_rules_none:
  "\<forall>r \<in> set rules. rule_matches facts r = Inr False \<Longrightarrow> fired_rules facts rules = Inr []"
  by (induction rules) auto

lemma sorted_reverse_mset: "mset (sorted_reverse k xs) = mset xs"
  by (simp add: sorted_reverse_def)

lemma sorted_reverse_Nil: "sorted_reverse k xs = [] \<longleftrightarrow> xs = []"
  by (metis sorted_reverse_mset mset_zero_iff)

lemma sorted_reverse_desc: "sorted_wrt (\<lambda>a b. k b \<le> k a) (sorted_reverse k xs)"
  using sorted_sort_key[of k "rev xs"]
  by (simp add: sorted_reverse_def sorted_wrt_rev sorted_map)

lemma sorted_reverse_stable:
  "filter (\<lambda>x. k x = p) (sorted_reverse k xs) = filter (\<lambda>x. k x = p) xs"
  by (simp add: sorted_reverse_def rev_filter[symmetric] sort_key_stable)

lemma run_rules_fired:
  assumes "fired_rules facts rules = Inr fired" and "fired \<noteq> []"
  shows "run_rules facts rules =
           Inr (best_action (hd (sorted_reverse priority_key fired)), sorted_reverse priority_key fired)"
proof -
  from assms(2) have "sorted_reverse priority_key fired \<noteq> []"
    by (simp add: sorted_reverse_Nil)
  then obtain r rest where "sorted_reverse priority_key fired = r # rest"
    by (cases "sorted_reverse priority_key fired") auto
  with assms show ?thesis by (simp add: run_rules_def)
qed

lemma run_rules_Inr:
  assumes "run_rules facts rules = Inr (d, fs)"
  shows "\<exists>fired. fired_rules facts rules = Inr fired \<and>
           (if fired = [] then fs = [] \<and> d = no_match_action
            else fs = sorted_reverse priority_key fired \<and> d = best_action (hd fs))"
proof (cases "fired_rules facts rules")
  case (Inl e)
  with assms show ?thesis by (simp add: run_rules_def)
next
  case (Inr fired)
  show ?thesis
  proof (cases "fired = []")
    case True
    with Inr assms show ?thesis by (simp add: run_rules_def)
  next
    case False
    from run_rules_fired[OF Inr False] assms Inr False show ?thesis by simp
  qed
qed

text \<open>
  C7. The fact set CGPA 3.8, co-curricular score 85, family income 7000 and no
  disciplinary action, run against the built-in rule set, gets the decision
  \<^verbatim>\<open>AWARD FULL\<close>: the top-merit rule (priority 100) fires together with the
  partial-scholarship rule (priority 80) and comes first.
\<close>

theorem top_merit_wins_end_to_end:
  "run_rules (mk_facts (38 / 10) 7000 85 0) SCHOLARSHIP_RULES =
     Inr (JObj [(''decision'', JStr ''AWARD FULL''),
                (''reason'', JStr ''Excellent academic & co-curricular performance, with acceptable need'')],
          [top_merit, good_partial])
   \<and> priority_key top_merit = 100 \<and> priority_key good_partial = 80"
  by (simp add: engine_eval)

text \<open>
  C3, as the code has it. When no rule matches, and in particular for the empty rule
  set, \<^verbatim>\<open>run_rules\<close> returns the fixed action with decision \<^verbatim>\<open>REJECT\<close> and reason
  \<^verbatim>\<open>No rule criteria matched for an award or review\<close>, and the empty fired list.
\<close>

theorem no_match_gives_default_reject:
  "run_rules facts [] = Inr (no_match_action, []) \<and>
   ((\<forall>r \<in> set rules. rule_matches facts r = Inr False) \<longrightarrow>
      run_rules facts rules = Inr (no_match_action, []))"
  by (simp add: run_rules_def fired_rules_none)

theorem no_match_gives_default_reject_witness:
  "list_all (\<lambda>r. rule_matches (mk_facts 3 50000 10 0) r = Inr False) SCHOLARSHIP_RULES \<and>
   run_rules (mk_facts 3 50000 10 0) SCHOLARSHIP_RULES = Inr (no_match_action, [])"
proof -
  have h: "\<forall>r \<in> set SCHOLARSHIP_RULES. rule_matches (mk_facts 3 50000 10 0) r = Inr False"
    by (simp add: engine_eval)
  with no_match_gives_default_reject[of "mk_facts 3 50000 10 0" SCHOLARSHIP_RULES]
  show ?thesis unfolding list_all_iff by blast
qed

text \<open>
  C3 as stated gives the reason \<^verbatim>\<open>no rule matched\<close>; that is not the text the
  function returns, here for the empty fact set and the empty rule set.
\<close>

theorem no_match_reason_counterexample:
  "run_rules (map_of []) [] \<noteq>
     Inr (JObj [(''decision'', JStr ''REJECT''), (''reason'', JStr ''no rule matched'')], [])"
  by (simp add: run_rules_def no_match_action_def)

text \<open>
  C4, as the code has it. When the first rule of the priority-sorted fired list has
  no \<open>action\<close> field, \<^verbatim>\<open>run_rules\<close> returns the default action with decision
  \<^verbatim>\<open>REVIEW\<close> and reason \<^verbatim>\<open>Matched rule has no defined action\<close>; when that rule has
  an \<open>action\<close> field, its value is returned as it is, whatever its shape.
\<close>

theorem missing_action_gives_default_review:
  "fired_rules facts rules = Inr fired \<Longrightarrow> fired \<noteq> [] \<Longrightarrow>
   (action (hd (sorted_reverse priority_key fired)) = None \<longrightarrow>
      run_rules facts rules = Inr (no_action_default, sorted_reverse priority_key fired))
   \<and> (\<forall>a. action (hd (sorted_reverse priority_key fired)) = Some a \<longrightarrow>
      run_rules facts rules = Inr (a, sorted_reverse priority_key fired))"
  by (simp add: run_rules_fired best_action_def)

theorem missing_action_gives_default_review_witness:
  "fired_rules (map_of []) [\<lparr>name = Some ''a'', priority = Some 1, conditions = None, action = Some JNull\<rparr>, \<lparr>name = Some ''b'', priority = Some 5, conditions = Some [], action = None\<rparr>] = Inr [\<lparr>name = Some ''a'', priority = Some 1, conditions = None, action = Some JNull\<rparr>, \<lparr>name = Some ''b'', priority = Some 5, conditions = Some [], action = None\<rparr>]
   \<and> run_rules (map_of []) [\<lparr>name = Some ''a'', priority = Some 1, conditions = None, action = Some JNull\<rparr>, \<lparr>name = Some ''b'', priority = Some 5, conditions = Some [], action = None\<rparr>] = Inr (no_action_default, [\<lparr>name = Some ''b'', priority = Some 5, conditions = Some [], action = None\<rparr>, \<lparr>name = Some ''a'', priority = Some 1, conditions = None, action = Some JNull\<rparr>])
   \<and> fired_rules (map_of []) [\<lparr>name = Some ''a'', priority = Some 1, conditions = None, action = Some JNull\<rparr>, \<lparr>name = Some ''b'', priority = Some 5, conditions = Some [], action = None\<rparr>, \<lparr>name = Some ''c'', priority = Some 9, conditions = None, action = Some (JStr ''yes'')\<rparr>] = Inr [\<lparr>name = Some ''a'', priority = Some 1, conditions = None, action = Some JNull\<rparr>, \<lparr>name = Some ''b'', priority = Some 5, conditions = Some [], action = None\<rparr>, \<lparr>name = Some ''c'', priority = Some 9, conditions = None, action = Some (JStr ''yes'')\<rparr>]
   \<and> run_rules (map_of []) [\<lparr>name = Some ''a'', priority = Some 1, conditions = None, action = Some JNull\<rparr>, \<lparr>name = Some ''b'', priority = Some 5, conditions = Some [], action = None\<rparr>, \<lparr>name = Some ''c'', priority = Some 9, conditions = None, action = Some (JStr ''yes'')\<rparr>] = Inr (JStr ''yes'', [\<lparr>name = Some ''c'', priority = Some 9, conditions = None, action = Some (JStr ''yes'')\<rparr>, \<lparr>name = Some ''b'', priority = Some 5, conditions = Some [], action = None\<rparr>, \<lparr>name = Some ''a'', priority = Some 1, conditions = None, action = Some JNull\<rparr>])"
proof -
  have f1: "fired_rules (map_of []) [\<lparr>name = Some ''a'', priority = Some 1, conditions = None, action = Some JNull\<rparr>, \<lparr>name = Some ''b'', priority = Some 5, conditions = Some [], action = None\<rparr>] = Inr [\<lparr>name = Some ''a'', priority = Some 1, conditions = None, action = Some JNull\<rparr>, \<lparr>name = Some ''b'', priority = Some 5, conditions = Some [], action = None\<rparr>]"
    by (simp add: rule_matches_def)
  have s1: "sorted_reverse priority_key [\<lparr>name = Some ''a'', priority = Some 1, conditions = None, action = Some JNull\<rparr>, \<lparr>name = Some ''b'', priority = Some 5, conditions = Some [], action = None\<rparr>] = [\<lparr>name = Some ''b'', priority = Some 5, conditions = Some [], action = None\<rparr>, \<lparr>name = Some ''a'', priority = Some 1, conditions = None, action = Some JNull\<rparr>]"
    by (simp add: sorted_reverse_def priority_key_def)
  have f2: "fired_rules (map_of []) [\<lparr>name = Some ''a'', priority = Some 1, conditions = None, action = Some JNull\<rparr>, \<lparr>name = Some ''b'', priority = Some 5, conditions = Some [], action = None\<rparr>, \<lparr>name = Some ''c'', priority = Some 9, conditions = None, action = Some (JStr ''yes'')\<rparr>] = Inr [\<lparr>name = Some ''a'', priority = Some 1, conditions = None, action = Some JNull\<rparr>, \<lparr>name = Some ''b'', priority = Some 5, conditions = Some [], action = None\<rparr>, \<lparr>name = Some ''c'', priority = Some 9, conditions = None, action = Some (JStr ''yes'')\<rparr>]"
    by (simp add: rule_matches_def)
  have s2: "sorted_reverse priority_key [\<lparr>name = Some ''a'', priority = Some 1, conditions = None, action = Some JNull\<rparr>, \<lparr>name = Some ''b'', priority = Some 5, conditions = Some [], action = None\<rparr>, \<lparr>name = Some ''c'', priority = Some 9, conditions = None, action = Some (JStr ''yes'')\<rparr>] = [\<lparr>name = Some ''c'', priority = Some 9, conditions = None, action = Some (JStr ''yes'')\<rparr>, \<lparr>name = Some ''b'', priority = Some 5, conditions = Some [], action = None\<rparr>, \<lparr>name = Some ''a'', priority = Some 1, conditions = None, action = Some JNull\<rparr>]"
    by (simp add: sorted_reverse_def priority_key_def)
  have r1: "run_rules (map_of []) [\<lparr>name = Some ''a'', priority = Some 1, conditions = None, action = Some JNull\<rparr>, \<lparr>name = Some ''b'', priority = Some 5, conditions = Some [], action = None\<rparr>] = Inr (no_action_default, [\<lparr>name = Some ''b'', priority = Some 5, conditions = Some [], action = None\<rparr>, \<lparr>name = Some ''a'', priority = Some 1, conditions = None, action = Some JNull\<rparr>])"
    using missing_action_gives_default_review[OF f1] by (simp add: s1)
  have r2: "run_rules (map_of []) [\<lparr>name = Some ''a'', priority = Some 1, conditions = None, action = Some JNull\<rparr>, \<lparr>name = Some ''b'', priority = Some 5, conditions = Some [], action = None\<rparr>, \<lparr>name = Some ''c'', priority = Some 9, conditions = None, action = Some (JStr ''yes'')\<rparr>] = Inr (JStr ''yes'', [\<lparr>name = Some ''c'', priority = Some 9, conditions = None, action = Some (JStr ''yes'')\<rparr>, \<lparr>name = Some ''b'', priority = Some 5, conditions = Some [], action = None\<rparr>, \<lparr>name = Some ''a'', priority = Some 1, conditions = None, action = Some JNull\<rparr>])"
    using missing_action_gives_default_review[OF f2] by (simp add: s2)
  from f1 r1 f2 r2 show ?thesis by simp
qed

text \<open>
  C4 as stated speaks of a rule with no well-formed action. An action that is present
  but is not an action record, here JSON \<^verbatim>\<open>null\<close>, is returned as it is.
\<close>

theorem malformed_action_counterexample:
  "run_rules (map_of [])
     [\<lparr>name = None, priority = Some 1, conditions = Some [], action = Some JNull\<rparr>] =
     Inr (JNull, [\<lparr>name = None, priority = Some 1, conditions = Some [], action = Some JNull\<rparr>])
   \<and> JNull \<noteq> no_action_default"
  by (simp add: engine_eval no_action_default_def)

text \<open>
  C10. A fired rule with no \<open>priority\<close> field is sorted with the key 0: in the fired
  list it stands after every fired rule of positive priority and before every fired
  rule of negative priority.
\<close>

theorem missing_priority_sorts_as_zero:
  assumes "run_rules facts rules = Inr (d, fs)" and "i < length fs" and "j < length fs"
    and "priority (fs ! i) = None" and "priority (fs ! j) = Some p"
  shows "(0 < p \<longrightarrow> j < i) \<and> (p < 0 \<longrightarrow> i < j)"
proof -
  from run_rules_Inr[OF assms(1)] assms(2) obtain fired
    where fs: "fs = sorted_reverse priority_key fired"
    by (auto split: if_splits)
  have srt: "sorted_wrt (\<lambda>a b. priority_key b \<le> priority_key a) fs"
    unfolding fs by (rule sorted_reverse_desc)
  have ki: "priority_key (fs ! i) = 0" and kj: "priority_key (fs ! j) = p"
    using assms(4,5) by (simp_all add: priority_key_def)
  have ne: "i \<noteq> j" using assms(4,5) by auto
  have a: "j < i" if "0 < p"
  proof (rule ccontr)
    assume "\<not> j < i"
    with ne have "i < j" by simp
    from sorted_wrt_nth_less[OF srt this assms(3)] ki kj that show False by simp
  qed
  have b: "i < j" if "p < 0"
  proof (rule ccontr)
    assume "\<not> i < j"
    with ne have "j < i" by simp
    from sorted_wrt_nth_less[OF srt this assms(2)] ki kj that show False by simp
  qed
  from a b show ?thesis by blast
qed

theorem missing_priority_sorts_as_zero_witness:
  "run_rules (map_of [])
      [\<lparr>name = Some ''neg'', priority = Some (- 3), conditions = None, action = None\<rparr>,
       \<lparr>name = Some ''none'', priority = None, conditions = None, action = None\<rparr>,
       \<lparr>name = Some ''pos'', priority = Some 5, conditions = None, action = None\<rparr>] =
     Inr (no_action_default,
      [\<lparr>name = Some ''pos'', priority = Some 5, conditions = None, action = None\<rparr>,
       \<lparr>name = Some ''none'', priority = None, conditions = None, action = None\<rparr>,
       \<lparr>name = Some ''neg'', priority = Some (- 3), conditions = None, action = None\<rparr>])
   \<and> (0 :: nat) < 1 \<and> (1 :: nat) < 2"
proof -
  have run: "run_rules (map_of [])
      [\<lparr>name = Some ''neg'', priority = Some (- 3), conditions = None, action = None\<rparr>,
       \<lparr>name = Some ''none'', priority = None, conditions = None, action = None\<rparr>,
       \<lparr>name = Some ''pos'', priority = Some 5, conditions = None, action = None\<rparr>] =
     Inr (no_action_default,
      [\<lparr>name = Some ''pos'', priority = Some 5, conditions = None, action = None\<rparr>,
       \<lparr>name = Some ''none'', priority = None, conditions = None, action = None\<rparr>,
       \<lparr>name = Some ''neg'', priority = Some (- 3), conditions = None, action = None\<rparr>])"
    by (simp add: run_rules_def rule_matches_def sorted_reverse_def priority_key_def best_action_def)
  from missing_priority_sorts_as_zero[OF run, of 1 0 5] have "(0 :: nat) < 1" by simp
  moreover from missing_priority_sorts_as_zero[OF run, of 1 2 "- 3"] have "(1 :: nat) < 2" by simp
  ultimately show ?thesis using run by simp
qed

text \<open>
  Resolution on the rule sets whose conditions all evaluate without raising. When some
  rule matches, \<^verbatim>\<open>run_rules\<close> returns the action of the first rule of the fired list
  (the default action when that rule has none) together with the fired list; the fired
  list holds exactly the matching rules, in descending order of priority, and the rules
  of each priority stand in it in the order they have in the input rule set.
\<close>

lemma run_rules_sorts_when_no_raise:
  assumes ok: "\<forall>r \<in> set rules. \<exists>b. rule_matches facts r = Inr b"
    and some: "filter (\<lambda>r. rule_matches facts r = Inr True) rules \<noteq> []"
  shows "\<exists>fs. run_rules facts rules =
            Inr (case action (hd fs) of None \<Rightarrow> no_action_default | Some a \<Rightarrow> a, fs)
          \<and> fs \<noteq> []
          \<and> mset fs = mset (filter (\<lambda>r. rule_matches facts r = Inr True) rules)
          \<and> sorted_wrt (\<lambda>a b. priority_key b \<le> priority_key a) fs
          \<and> (\<forall>p. filter (\<lambda>r. priority_key r = p) fs =
                 filter (\<lambda>r. priority_key r = p)
                   (filter (\<lambda>r. rule_matches facts r = Inr True) rules))"
proof -
  let ?fired = "filter (\<lambda>r. rule_matches facts r = Inr True) rules"
  let ?fs = "sorted_reverse priority_key ?fired"
  have f: "fired_rules facts rules = Inr ?fired" using ok by (rule fired_rules_filter)
  have run: "run_rules facts rules = Inr (best_action (hd ?fs), ?fs)"
    using f some by (rule run_rules_fired)
  have "run_rules facts rules =
          Inr (case action (hd ?fs) of None \<Rightarrow> no_action_default | Some a \<Rightarrow> a, ?fs)"
    using run by (simp only: best_action_def)
  moreover have "?fs \<noteq> []" using some by (simp only: sorted_reverse_Nil not_False_eq_True)
  moreover have "mset ?fs = mset ?fired" by (rule sorted_reverse_mset)
  moreover have "sorted_wrt (\<lambda>a b. priority_key b \<le> priority_key a) ?fs"
    by (rule sorted_reverse_desc)
  moreover have "\<forall>p. filter (\<lambda>r. priority_key r = p) ?fs = filter (\<lambda>r. priority_key r = p) ?fired"
    by (simp only: sorted_reverse_stable simp_thms)
  ultimately show ?thesis by blast
qed

lemma run_rules_sorts_tie_rules:
  "list_all (\<lambda>r. \<exists>b. rule_matches (map_of []) r = Inr b) tie_rules
   \<and> filter (\<lambda>r. rule_matches (map_of []) r = Inr True) tie_rules \<noteq> []
   \<and> (\<exists>fs. run_rules (map_of []) tie_rules =
            Inr (case action (hd fs) of None \<Rightarrow> no_action_default | Some a \<Rightarrow> a, fs)
          \<and> fs \<noteq> []
          \<and> mset fs = mset (filter (\<lambda>r. rule_matches (map_of []) r = Inr True) tie_rules)
          \<and> sorted_wrt (\<lambda>a b. priority_key b \<le> priority_key a) fs
          \<and> (\<forall>p. filter (\<lambda>r. priority_key r = p) fs =
                 filter (\<lambda>r. priority_key r = p)
                   (filter (\<lambda>r. rule_matches (map_of []) r = Inr True) tie_rules)))"
proof -
  have ok: "\<forall>r \<in> set tie_rules. \<exists>b. rule_matches (map_of []) r = Inr b"
    by (auto simp add: tie_rules_def rule_matches_def)
  have some: "filter (\<lambda>r. rule_matches (map_of []) r = Inr True) tie_rules \<noteq> []"
    by (simp add: tie_rules_def rule_matches_def)
  from run_rules_sorts_when_no_raise[OF ok some] ok some show ?thesis
    unfolding list_all_iff by blast
qed

text \<open>The tie rule set, run: the rule of priority 7 first, the two of priority 5 in input order.\<close>

lemma tie_run:
  "run_rules (map_of []) tie_rules =
     Inr (JObj [(''decision'', JStr ''REVIEW''), (''reason'', JStr ''high'')],
          [\<lparr>name = Some ''high'', priority = Some 7, conditions = None,
             action = Some (JObj [(''decision'', JStr ''REVIEW''), (''reason'', JStr ''high'')])\<rparr>,
           \<lparr>name = Some ''first'', priority = Some 5, conditions = Some [], action = None\<rparr>,
           \<lparr>name = Some ''second'', priority = Some 5, conditions = Some [], action = None\<rparr>])"
  by (simp add: tie_rules_def run_rules_def rule_matches_def sorted_reverse_def priority_key_def best_action_def)

text \<open>
  C1. The claim holds on the rule sets above; for every rule set it fails in the code.
  Here the first rule has no conditions and matches, the second has a condition whose
  field name is a list: gathering the matching rules raises \<^verbatim>\<open>TypeError\<close>, and
  \<^verbatim>\<open>run_rules\<close> returns neither a decision nor a fired list.
\<close>

theorem run_rules_raises_on_unhashable_field:
  "rule_matches (map_of [(''cgpa'', JFloat (Fin (7 / 2)))])
     \<lparr>name = Some ''catch-all'', priority = Some 1, conditions = None, action = Some (JObj [(''decision'', JStr ''REVIEW''), (''reason'', JStr ''catch-all'')])\<rparr> = Inr True
   \<and> run_rules (map_of [(''cgpa'', JFloat (Fin (7 / 2)))])
     [\<lparr>name = Some ''catch-all'', priority = Some 1, conditions = None, action = Some (JObj [(''decision'', JStr ''REVIEW''), (''reason'', JStr ''catch-all'')])\<rparr>,
      \<lparr>name = Some ''list field'', priority = Some 2, conditions = Some [[JArr [JStr ''cgpa''], JStr ''>='', JInt 3]], action = Some (JObj [(''decision'', JStr ''REVIEW''), (''reason'', JStr ''list field'')])\<rparr>] = Inl TypeError"
  by (simp add: run_rules_def rule_matches_def evaluate_condition_def dict_get_def)

subsection \<open>Conditions\<close>

lemma evaluate_condition_hashable:
  "hashable field \<Longrightarrow> hashable op \<Longrightarrow> \<exists>b. evaluate_condition facts [field, op, v] = Inr b"
  by (auto simp: evaluate_condition_def dict_get_def hashable_def split: json.splits option.splits sum.splits)

lemma evaluate_condition_length: "length cond \<noteq> 3 \<Longrightarrow> evaluate_condition facts cond = Inr False"
  by (auto simp: evaluate_condition_def split: list.splits)

lemma evaluate_condition_no_raise:
  assumes "\<forall>field op v. c = [field, op, v] \<longrightarrow> hashable field \<and> hashable op"
  shows "\<exists>b. evaluate_condition facts c = Inr b"
proof (cases "length c = 3")
  case True
  then obtain field op v where "c = [field, op, v]"
    by (auto simp: length_Suc_conv numeral_3_eq_3)
  with assms evaluate_condition_hashable[of field op facts v] show ?thesis by simp
next
  case False
  then show ?thesis by (auto simp add: evaluate_condition_length)
qed

lemma all_conditions_no_raise:
  "\<forall>c \<in> set cs. \<exists>b. evaluate_condition facts c = Inr b \<Longrightarrow> \<exists>b. all_conditions facts cs = Inr b"
  by (induction cs) auto

text \<open>
  C2. The claim holds for conditions whose field and operator can be hashed (the three
  lemmas above); the code breaks it for the others. With a list as field name the
  membership test \<^verbatim>\<open>field not in facts\<close>, which stands before the \<^verbatim>\<open>try\<close>, raises
  \<^verbatim>\<open>TypeError\<close>.
\<close>

theorem unhashable_field_raises:
  "evaluate_condition (map_of [(''cgpa'', JFloat (Fin (7 / 2)))])
     [JArr [JStr ''cgpa''], JStr ''>='', JInt 3] = Inl TypeError"
  by (simp add: evaluate_condition_def dict_get_def)

lemma evaluate_condition_fact_float:
  "py_float a = py_float b \<Longrightarrow>
   evaluate_condition (facts(f \<mapsto> a)) c = evaluate_condition (facts(f \<mapsto> b)) c"
  by (auto simp: evaluate_condition_def dict_get_def split: list.splits json.splits option.splits sum.splits)

lemma evaluate_condition_threshold_float:
  "py_float a = py_float b \<Longrightarrow>
   evaluate_condition facts [fld, op, a] = evaluate_condition facts [fld, op, b]"
  by (auto simp: evaluate_condition_def split: option.splits sum.splits)

lemma py_float_3:
  "py_float (JInt 3) = Inr (Fin 3)" "py_float (JFloat (Fin 3)) = Inr (Fin 3)"
  "py_float (JStr ''3'') = Inr (Fin 3)"
  by (simp_all add: dbl_numeral float_of_str_def strip_def is_space_def split_sign_def lower_def
      floatnumber_def is_digit_def exponent_def digits_val_def digit_val_def Let_def)

text \<open>
  C5. The result of a condition with a string field and a string operator is the
  operator applied to \<^verbatim>\<open>float\<close> of the fact value and \<^verbatim>\<open>float\<close> of the threshold, and
  false when one of the conversions fails. So the fact values \<open>3\<close>, \<open>3.0\<close> and \<open>"3"\<close>
  give the same result in every condition, and so do these three forms of a threshold.
\<close>

theorem numeric_coercion_before_comparison:
  "evaluate_condition facts [JStr f, JStr op, t] =
     Inr (case (facts f, OPS op) of
            (Some v, Some cmp) \<Rightarrow>
              (case (py_float v, py_float t) of (Inr x, Inr y) \<Rightarrow> cmp x y | _ \<Rightarrow> False)
          | _ \<Rightarrow> False)
   \<and> evaluate_condition (facts(f \<mapsto> JFloat (Fin 3))) c = evaluate_condition (facts(f \<mapsto> JInt 3)) c
   \<and> evaluate_condition (facts(f \<mapsto> JStr ''3'')) c = evaluate_condition (facts(f \<mapsto> JInt 3)) c
   \<and> evaluate_condition facts [fld, opr, JFloat (Fin 3)] = evaluate_condition facts [fld, opr, JInt 3]
   \<and> evaluate_condition facts [fld, opr, JStr ''3''] = evaluate_condition facts [fld, opr, JInt 3]"
proof -
  have 1: "evaluate_condition facts [JStr f, JStr op, t] =
     Inr (case (facts f, OPS op) of
            (Some v, Some cmp) \<Rightarrow>
              (case (py_float v, py_float t) of (Inr x, Inr y) \<Rightarrow> cmp x y | _ \<Rightarrow> False)
          | _ \<Rightarrow> False)"
    by (simp add: evaluate_condition_def dict_get_def split: option.splits sum.splits)
  show ?thesis
    using 1 evaluate_condition_fact_float[of "JFloat (Fin 3)" "JInt 3" facts f c]
      evaluate_condition_fact_float[of "JStr ''3''" "JInt 3" facts f c]
      evaluate_condition_threshold_float[of "JFloat (Fin 3)" "JInt 3" facts fld opr]
      evaluate_condition_threshold_float[of "JStr ''3''" "JInt 3" facts fld opr]
    by (simp only: py_float_3 simp_thms)
qed

lemma evaluate_condition_absent:
  "facts f = None \<Longrightarrow> evaluate_condition facts [JStr f, op, v] = Inr False"
  by (simp add: evaluate_condition_def dict_get_def)

text \<open>
  C6. A rule matches exactly when each of its conditions evaluates to true; a rule with
  the empty condition list matches; a rule with a condition on a field that is not in
  the facts does not match.
\<close>

theorem rule_matches_iff_all_conditions:
  "(rule_matches facts r = Inr True \<longleftrightarrow>
      (\<forall>c \<in> set (case conditions r of None \<Rightarrow> [] | Some cs \<Rightarrow> cs).
          evaluate_condition facts c = Inr True))
   \<and> rule_matches facts (r\<lparr>conditions := Some []\<rparr>) = Inr True
   \<and> (conditions r = Some cs \<and> [JStr f, op, v] \<in> set cs \<and> facts f = None \<longrightarrow>
        rule_matches facts r \<noteq> Inr True)"
proof -
  have 1: "rule_matches facts r = Inr True \<longleftrightarrow>
      (\<forall>c \<in> set (case conditions r of None \<Rightarrow> [] | Some cs \<Rightarrow> cs).
          evaluate_condition facts c = Inr True)"
    unfolding rule_matches_def by (rule all_conditions_True_iff)
  have 2: "rule_matches facts (r\<lparr>conditions := Some []\<rparr>) = Inr True"
    by (simp add: rule_matches_def)
  have 3: "rule_matches facts r \<noteq> Inr True"
    if "conditions r = Some cs" "[JStr f, op, v] \<in> set cs" "facts f = None"
  proof
    assume "rule_matches facts r = Inr True"
    with 1 that(1,2) have "evaluate_condition facts [JStr f, op, v] = Inr True" by simp
    with evaluate_condition_absent[of facts f op v] that(3) show False by simp
  qed
  from 1 2 3 show ?thesis by blast
qed

theorem rule_matches_iff_all_conditions_witness:
  "list_all (\<lambda>c. evaluate_condition (mk_facts (38 / 10) 7000 85 0) c = Inr True)
       (case conditions top_merit of None \<Rightarrow> [] | Some cs \<Rightarrow> cs)
   \<and> rule_matches (mk_facts (38 / 10) 7000 85 0) top_merit = Inr True
   \<and> conditions low_cgpa = Some [[JStr ''cgpa'', JStr ''<'', JFloat (dbl (25 / 10))]]
   \<and> [JStr ''cgpa'', JStr ''<'', JFloat (dbl (25 / 10))]
        \<in> set [[JStr ''cgpa'', JStr ''<'', JFloat (dbl (25 / 10))]]
   \<and> map_of [(''family_income'', JInt 1000)] ''cgpa'' = None
   \<and> rule_matches (map_of [(''family_income'', JInt 1000)]) low_cgpa \<noteq> Inr True"
proof -
  have a: "\<forall>c \<in> set (case conditions top_merit of None \<Rightarrow> [] | Some cs \<Rightarrow> cs).
       evaluate_condition (mk_facts (38 / 10) 7000 85 0) c = Inr True"
    by (simp add: top_merit_def mk_rule_def cond3_def mk_facts_def evaluate_condition_def
        dict_get_def OPS_def fl_eq_def dbl_eval)
  have b: "conditions low_cgpa = Some [[JStr ''cgpa'', JStr ''<'', JFloat (dbl (25 / 10))]]"
    by (simp add: low_cgpa_def mk_rule_def cond3_def)
  have c: "map_of [(''family_income'', JInt 1000)] ''cgpa'' = (None :: json option)" by simp
  from rule_matches_iff_all_conditions[of "mk_facts (38 / 10) 7000 85 0" top_merit] a
  have m: "rule_matches (mk_facts (38 / 10) 7000 85 0) top_merit = Inr True" by blast
  have n: "rule_matches (map_of [(''family_income'', JInt 1000)]) low_cgpa \<noteq> Inr True"
    by (rule rule_matches_iff_all_conditions[of "map_of [(''family_income'', JInt 1000)]" low_cgpa
          "[[JStr ''cgpa'', JStr ''<'', JFloat (dbl (25 / 10))]]" "''cgpa''" "JStr ''<''"
          "JFloat (dbl (25 / 10))", THEN conjunct2, THEN conjunct2, THEN mp])
       (simp add: b)
  from a m b c n show ?thesis by (simp add: list_all_iff)
qed

end
